theory Spec2Isabelle
  imports Main "HOL-Library.Sublist" "HOL-Library.Finite_Map"
begin

section \<open>JavaScript values\<close>

text \<open>
  Payloads, parsed response bodies and the elements of cache keys are plain JavaScript
  values. Objects are finite maps from property names to values, so that equality in HOL
  is deep equality of the value (the order in which properties were written is not part
  of it). Numbers are the integers: status codes, delays and counts.
\<close>

datatype js_value =
    JUndefined
  | JNull
  | JBool bool
  | JNum int
  | JStr string
  | JArr "js_value list"
  | JObj "(string, js_value) fmap"

text \<open>What \<^verbatim>\<open>if (v)\<close>, \<^verbatim>\<open>v ? a : b\<close> and \<^verbatim>\<open>v || w\<close> test.\<close>

fun truthy :: "js_value \<Rightarrow> bool" where
  "truthy JUndefined = False"
| "truthy JNull = False"
| "truthy (JBool b) = b"
| "truthy (JNum n) = (n \<noteq> 0)"
| "truthy (JStr s) = (s \<noteq> [])"
| "truthy (JArr xs) = True"
| "truthy (JObj m) = True"

text \<open>Optional properties: \<open>None\<close> is \<^verbatim>\<open>undefined\<close>.\<close>

definition num_truthy :: "int option \<Rightarrow> bool" where
  "num_truthy a = (case a of None \<Rightarrow> False | Some n \<Rightarrow> n \<noteq> 0)"

definition str_truthy :: "string option \<Rightarrow> bool" where
  "str_truthy a = (case a of None \<Rightarrow> False | Some s \<Rightarrow> s \<noteq> [])"

text \<open>\<^verbatim>\<open>a || b\<close> on optional numbers: \<open>a\<close> when it is truthy, \<open>b\<close> otherwise.\<close>

definition num_or :: "int option \<Rightarrow> int option \<Rightarrow> int option" where
  "num_or a b = (if num_truthy a then a else b)"

text \<open>\<^verbatim>\<open>s >= lo && s < hi\<close>; a comparison with \<^verbatim>\<open>undefined\<close> is false.\<close>

definition in_range :: "int \<Rightarrow> int \<Rightarrow> int option \<Rightarrow> bool" where
  "in_range lo hi a = (case a of None \<Rightarrow> False | Some s \<Rightarrow> lo \<le> s \<and> s < hi)"

section \<open>Strings\<close>

text \<open>A number inside a template literal: its decimal digits.\<close>

fun string_of_nat :: "nat \<Rightarrow> string" where
  "string_of_nat n =
     (if n < 10 then [''0123456789'' ! n]
      else string_of_nat (n div 10) @ [''0123456789'' ! (n mod 10)])"

declare string_of_nat.simps [simp del]

definition string_of_int :: "int \<Rightarrow> string" where
  "string_of_int i = (if i < 0 then ''-'' @ string_of_nat (nat (- i)) else string_of_nat (nat i))"

text \<open>
  \<^verbatim>\<open>String.prototype.toLowerCase\<close> on the ASCII letters; every other character is kept.
\<close>

definition toLowerCase_char :: "char \<Rightarrow> char" where
  "toLowerCase_char c =
     (case map_of (zip ''ABCDEFGHIJKLMNOPQRSTUVWXYZ'' ''abcdefghijklmnopqrstuvwxyz'') c of
        None \<Rightarrow> c
      | Some l \<Rightarrow> l)"

definition toLowerCase :: "string \<Rightarrow> string" where
  "toLowerCase s = map toLowerCase_char s"

text \<open>\<^verbatim>\<open>s.includes(t)\<close>: \<open>t\<close> occurs in \<open>s\<close> as a contiguous run of characters.\<close>

fun str_includes :: "string \<Rightarrow> string \<Rightarrow> bool" where
  "str_includes [] t = (t = [])"
| "str_includes (c # cs) t = (prefix t (c # cs) \<or> str_includes cs t)"

text \<open>\<^verbatim>\<open>parts.join(sep)\<close>.\<close>

fun join :: "string \<Rightarrow> string list \<Rightarrow> string" where
  "join sep [] = []"
| "join sep [x] = x"
| "join sep (x # y # ys) = x @ sep @ join sep (y # ys)"

section \<open>Errors and responses\<close>

text \<open>
  An error value as the handlers read it: every property may be missing. \<open>e_response\<close>
  is the \<^verbatim>\<open>response\<close> object some HTTP clients attach to an error, of which
  only \<^verbatim>\<open>status\<close> is read. The same shape holds the raw errors that are caught and the
  \<^verbatim>\<open>I18nextError\<close> that is thrown on.
\<close>

record response_like =
  rl_status :: "int option"

record js_error =
  e_name :: "string option"
  e_message :: "string option"
  e_status :: "int option"
  e_response :: "response_like option"
  e_url :: "string option"
  e_retry :: "bool option"

text \<open>
  \<^verbatim>\<open>error?.p\<close> on a caught value of type \<^verbatim>\<open>any\<close>: \<open>None\<close> stands for
  \<^verbatim>\<open>null\<close>, \<^verbatim>\<open>undefined\<close> and for thrown values without properties.
\<close>

definition err_prop :: "(js_error \<Rightarrow> 'a option) \<Rightarrow> js_error option \<Rightarrow> 'a option" where
  "err_prop f error = (case error of None \<Rightarrow> None | Some e \<Rightarrow> f e)"

text \<open>\<^verbatim>\<open>I18nextResponse\<close>: \<^verbatim>\<open>{ status, data }\<close>.\<close>

record i18next_response =
  status :: int
  data :: js_value

text \<open>\<^verbatim>\<open>new Error(msg)\<close>: only \<^verbatim>\<open>name\<close> and \<^verbatim>\<open>message\<close> are set.\<close>

definition new_error :: "string \<Rightarrow> js_error" where
  "new_error msg =
     \<lparr>e_name = Some ''Error'', e_message = Some msg, e_status = None, e_response = None,
      e_url = None, e_retry = None\<rparr>"

text \<open>An optional value inside a template literal.\<close>

definition template_num :: "int option \<Rightarrow> string" where
  "template_num a = (case a of None \<Rightarrow> ''undefined'' | Some n \<Rightarrow> string_of_int n)"

definition template_str :: "string option \<Rightarrow> string" where
  "template_str a = (case a of None \<Rightarrow> ''undefined'' | Some s \<Rightarrow> s)"

section \<open>The error handler (I18nextErrorHandler)\<close>

definition networkErrorTerms :: "string list" where
  "networkErrorTerms = [''failed'', ''fetch'', ''network'', ''load'', ''timeout'', ''abort'']"

text \<open>
  The guard \<^verbatim>\<open>error?.response || error?.status\<close> and, under it, the local
  \<^verbatim>\<open>status = error.response?.status || error.status\<close>.
\<close>

definition has_status_info :: "js_error option \<Rightarrow> bool" where
  "has_status_info error =
     (err_prop e_response error \<noteq> None \<or> num_truthy (err_prop e_status error))"

definition carried_status :: "js_error option \<Rightarrow> int option" where
  "carried_status error =
     (if has_status_info error
      then num_or (case err_prop e_response error of None \<Rightarrow> None | Some r \<Rightarrow> rl_status r)
                  (err_prop e_status error)
      else None)"

text \<open>
  \<^verbatim>\<open>error?.message\<close> is truthy and some term occurs in
  \<^verbatim>\<open>error.message.toLowerCase()\<close>.
\<close>

definition isNetworkError :: "js_error option \<Rightarrow> bool" where
  "isNetworkError error =
     (case err_prop e_message error of
        None \<Rightarrow> False
      | Some m \<Rightarrow>
          m \<noteq> [] \<and> list_ex (\<lambda>term. str_includes (toLowerCase m) term) networkErrorTerms)"

text \<open>\<^verbatim>\<open>error?.name === "SyntaxError" || error?.message?.includes("JSON")\<close>.\<close>

definition isParseError :: "js_error option \<Rightarrow> bool" where
  "isParseError error =
     (err_prop e_name error = Some ''SyntaxError'' \<or>
      (case err_prop e_message error of None \<Rightarrow> False | Some m \<Rightarrow> str_includes m ''JSON''))"

definition transformError :: "js_error option \<Rightarrow> string \<Rightarrow> js_error" where
  "transformError error url =
     (let i18nextError0 = (new_error [])\<lparr>e_url := Some url\<rparr>;
          status = carried_status error;
          i18nextError =
            (if has_status_info error then i18nextError0\<lparr>e_status := status\<rparr>
             else i18nextError0)
      in if has_status_info error \<and> in_range 500 600 status then
           i18nextError
             \<lparr>e_message :=
                Some (''failed loading '' @ url @ ''; status code: '' @ template_num status),
              e_retry := Some True\<rparr>
         else if has_status_info error \<and> in_range 400 500 status then
           i18nextError
             \<lparr>e_message :=
                Some (''failed loading '' @ url @ ''; status code: '' @ template_num status),
              e_retry := Some False\<rparr>
         else if isNetworkError error then
           i18nextError
             \<lparr>e_message :=
                Some (''failed loading '' @ url @ '': '' @ template_str (err_prop e_message error)),
              e_retry := Some True\<rparr>
         else if isParseError error then
           i18nextError
             \<lparr>e_message := Some (''failed parsing '' @ url @ '' to json''),
              e_retry := Some False\<rparr>
         else
           i18nextError
             \<lparr>e_message :=
                Some (if str_truthy (err_prop e_message error)
                      then template_str (err_prop e_message error)
                      else ''Unknown error occurred''),
              e_retry := Some False\<rparr>)"

definition shouldRetry :: "js_error \<Rightarrow> bool" where
  "shouldRetry error = (e_retry error = Some True)"

text \<open>
  \<^verbatim>\<open>Math.min(1000 * Math.pow(2, attemptIndex), 30000)\<close> on attempt indices
  0, 1, 2, ... On these the product is an exact power of two times 1000, or infinite
  from attempt 1024 on, and the minimum with 30000 is the one computed here.
\<close>

definition getRetryDelay :: "nat \<Rightarrow> nat" where
  "getRetryDelay attemptIndex = min (1000 * 2 ^ attemptIndex) 30000"

text \<open>The pair \<^verbatim>\<open>{ error, retry }\<close> handed to the callback shim.\<close>

record processed_error =
  p_error :: "string option"
  p_retry :: bool

definition processForCallback :: "js_error option \<Rightarrow> processed_error" where
  "processForCallback error =
     (case error of
        None \<Rightarrow> \<lparr>p_error = None, p_retry = False\<rparr>
      | Some e \<Rightarrow>
          if e_retry e = Some True then \<lparr>p_error = e_message e, p_retry = True\<rparr>
          else if num_truthy (e_status e) \<and> in_range 400 500 (e_status e) then
            \<lparr>p_error = e_message e, p_retry = False\<rparr>
          else if num_truthy (e_status e) \<and> in_range 500 600 (e_status e) then
            \<lparr>p_error = e_message e, p_retry = True\<rparr>
          else \<lparr>p_error = e_message e, p_retry = False\<rparr>)"

section \<open>Cache keys\<close>

text \<open>
  A query key is a JavaScript array. The key factory of \<^verbatim>\<open>lib/tanstack/query-keys.ts\<close>:
\<close>

definition queryKeys_all :: "js_value list" where
  "queryKeys_all = [JStr ''i18next'']"

definition queryKeys_load :: "string \<Rightarrow> js_value list" where
  "queryKeys_load url = [JStr ''i18next'', JStr ''load'', JStr url]"

definition queryKeys_create :: "string \<Rightarrow> js_value \<Rightarrow> js_value list" where
  "queryKeys_create url payload = [JStr ''i18next'', JStr ''save'', JStr url, payload]"

text \<open>
  The key factory declared with the types at the end of \<^verbatim>\<open>lib/react-native-config.ts\<close>,
  which builds each key by spreading the shorter one. This is the one whose
  \<^verbatim>\<open>load\<close> takes the payload as well, as the backend calls it.
\<close>

definition types_queryKeys_all :: "js_value list" where
  "types_queryKeys_all = [JStr ''i18next'']"

definition types_queryKeys_loads :: "js_value list" where
  "types_queryKeys_loads = types_queryKeys_all @ [JStr ''load'']"

definition types_queryKeys_load :: "string \<Rightarrow> js_value \<Rightarrow> js_value list" where
  "types_queryKeys_load url payload = types_queryKeys_loads @ [JStr url, payload]"

definition types_queryKeys_creates :: "js_value list" where
  "types_queryKeys_creates = types_queryKeys_all @ [JStr ''create'']"

definition types_queryKeys_create :: "string \<Rightarrow> js_value \<Rightarrow> js_value list" where
  "types_queryKeys_create url payload = types_queryKeys_creates @ [JStr url, payload]"

text \<open>
  A key factory as a value, the object that the name \<^verbatim>\<open>queryKeys\<close> stands for
  where it is bound, and the one declared with the types.
\<close>

record key_factory =
  kf_all :: "js_value list"
  kf_load :: "string \<Rightarrow> js_value \<Rightarrow> js_value list"
  kf_create :: "string \<Rightarrow> js_value \<Rightarrow> js_value list"

definition types_queryKeys :: key_factory where
  "types_queryKeys =
     \<lparr>kf_all = types_queryKeys_all, kf_load = types_queryKeys_load,
      kf_create = types_queryKeys_create\<rparr>"

section \<open>Options, requests and the platform\<close>

datatype retry_setting = RetryCount nat | RetryFlag bool

datatype retry_delay_setting = DelayMs nat | DelayFn "nat \<Rightarrow> nat"

record tanstack_query_options =
  enabled :: "bool option"
  staleTime :: "nat option"
  cacheTime :: "nat option"
  retry :: "retry_setting option"
  retryDelay :: "retry_delay_setting option"
  refetchOnWindowFocus :: "bool option"
  refetchOnReconnect :: "bool option"

text \<open>
  \<^verbatim>\<open>RequestInit\<close>, every property optional, with the properties the backend sets.
  A header object is a map from header names to values.
\<close>

record request_init =
  ri_method :: "string option"
  ri_headers :: "(string \<rightharpoonup> string) option"
  ri_body :: "string option"
  ri_credentials :: "string option"
  ri_mode :: "string option"

definition empty_request_init :: request_init where
  "empty_request_init =
     \<lparr>ri_method = None, ri_headers = None, ri_body = None, ri_credentials = None,
      ri_mode = None\<rparr>"

text \<open>An option that is either a value or a function producing it.\<close>

datatype ('a, 'b) value_or_function = Value 'b | Function "'a \<Rightarrow> 'b"

fun resolve :: "('a, 'b) value_or_function \<Rightarrow> 'a \<Rightarrow> 'b" where
  "resolve (Value v) x = v"
| "resolve (Function f) x = f x"

text \<open>The \<^verbatim>\<open>Response\<close> of \<^verbatim>\<open>fetch\<close>, with \<^verbatim>\<open>await response.text()\<close>.\<close>

record fetch_response =
  resp_ok :: bool
  resp_status :: int
  resp_statusText :: string
  resp_text :: string

text \<open>
  A settled promise: \<open>Inr\<close> the value it resolves to, \<open>Inl\<close> the value it rejects with.
\<close>

type_synonym 'a settled = "js_error option + 'a"

text \<open>The options object handed to \<^verbatim>\<open>fetchQuery\<close>, and the cache client itself.\<close>

record query_options =
  queryKey :: "js_value list"
  queryFn :: "unit \<Rightarrow> i18next_response settled"
  q_staleTime :: "nat option"
  q_cacheTime :: "nat option"
  q_retry :: "nat \<Rightarrow> js_error \<Rightarrow> bool"
  q_retryDelay :: retry_delay_setting
  q_refetchOnWindowFocus :: bool
  q_refetchOnReconnect :: bool

record query_client =
  fetchQuery :: "query_options \<Rightarrow> i18next_response settled"

text \<open>
  \<^verbatim>\<open>I18nextRequestOptions\<close>, with the properties the backend reads; \<open>None\<close> is a
  property that the object does not have.
\<close>

record backend_options =
  customHeaders :: "(unit, string \<rightharpoonup> string) value_or_function option"
  queryStringParams :: "(string \<times> string) list option"
  requestOptions :: "(js_value, request_init) value_or_function option"
  crossDomain :: "bool option"
  withCredentials :: "bool option"
  parse :: "(string \<Rightarrow> js_value option) option"
  stringify :: "(js_value \<Rightarrow> string) option"
  queryClient :: "query_client option"
  tanstackQuery :: "tanstack_query_options option"

definition empty_options :: backend_options where
  "empty_options =
     \<lparr>customHeaders = None, queryStringParams = None, requestOptions = None,
      crossDomain = None, withCredentials = None, parse = None, stringify = None,
      queryClient = None, tanstackQuery = None\<rparr>"

text \<open>
  What the runtime provides: the Node.js process (absent in a browser or in React Native),
  the JSON functions (\<^verbatim>\<open>JSON.parse\<close> throws on malformed text: \<open>None\<close>),
  \<^verbatim>\<open>encodeURIComponent\<close> and \<^verbatim>\<open>fetch\<close>.
\<close>

record node_process =
  node_version :: string
  node_platform :: string
  node_arch :: string

record platform =
  nodeProcess :: "node_process option"
  JSON_stringify :: "js_value \<Rightarrow> string"
  JSON_parse :: "string \<Rightarrow> js_value option"
  encodeURIComponent :: "string \<Rightarrow> string"
  fetch :: "string \<Rightarrow> request_init \<Rightarrow> fetch_response settled"

text \<open>An instance of \<^verbatim>\<open>TanStackI18nextBackend\<close>.\<close>

record backend =
  this_queryClient :: query_client
  this_options :: backend_options

text \<open>
  Object spread, \<^verbatim>\<open>{ ...a, ...b }\<close>, of objects whose properties are absent or hold
  a value: a property of \<open>b\<close> replaces that of \<open>a\<close>.
\<close>

definition spread_prop :: "'a option \<Rightarrow> 'a option \<Rightarrow> 'a option" where
  "spread_prop a b = (case b of None \<Rightarrow> a | Some v \<Rightarrow> Some v)"

definition spread_options :: "backend_options \<Rightarrow> backend_options \<Rightarrow> backend_options" where
  "spread_options a b =
     \<lparr>customHeaders = spread_prop (customHeaders a) (customHeaders b),
      queryStringParams = spread_prop (queryStringParams a) (queryStringParams b),
      requestOptions = spread_prop (requestOptions a) (requestOptions b),
      crossDomain = spread_prop (crossDomain a) (crossDomain b),
      withCredentials = spread_prop (withCredentials a) (withCredentials b),
      parse = spread_prop (parse a) (parse b),
      stringify = spread_prop (stringify a) (stringify b),
      queryClient = spread_prop (queryClient a) (queryClient b),
      tanstackQuery = spread_prop (tanstackQuery a) (tanstackQuery b)\<rparr>"

definition spread_request_init :: "request_init \<Rightarrow> request_init \<Rightarrow> request_init" where
  "spread_request_init a b =
     \<lparr>ri_method = spread_prop (ri_method a) (ri_method b),
      ri_headers = spread_prop (ri_headers a) (ri_headers b),
      ri_body = spread_prop (ri_body a) (ri_body b),
      ri_credentials = spread_prop (ri_credentials a) (ri_credentials b),
      ri_mode = spread_prop (ri_mode a) (ri_mode b)\<rparr>"

section \<open>The backend (TanStackI18nextBackend)\<close>

definition default_tanstackQuery :: tanstack_query_options where
  "default_tanstackQuery =
     \<lparr>enabled = Some True,
      staleTime = Some (5 * 60 * 1000),
      cacheTime = Some (10 * 60 * 1000),
      retry = Some (RetryCount 3),
      retryDelay = Some (DelayFn getRetryDelay),
      refetchOnWindowFocus = Some False,
      refetchOnReconnect = Some True\<rparr>"

text \<open>The constructor; \<open>empty_options\<close> is the default \<^verbatim>\<open>{}\<close> of its second parameter.\<close>

definition TanStackI18nextBackend :: "query_client \<Rightarrow> backend_options \<Rightarrow> backend" where
  "TanStackI18nextBackend client options =
     \<lparr>this_queryClient = client,
      this_options =
        spread_options (empty_options\<lparr>tanstackQuery := Some default_tanstackQuery\<rparr>) options\<rparr>"

definition addQueryString ::
  "platform \<Rightarrow> string \<Rightarrow> (string \<times> string) list option \<Rightarrow> string" where
  "addQueryString P url params =
     (case params of
        None \<Rightarrow> url
      | Some entries \<Rightarrow>
          (let queryString =
                 join ''&''
                   (map (\<lambda>(key, val). encodeURIComponent P key @ ''='' @ encodeURIComponent P val)
                        entries)
           in if queryString = [] then url
              else url @ (if str_includes url ''?'' then ''&'' else ''?'') @ queryString))"

definition userAgent :: "node_process \<Rightarrow> string" where
  "userAgent p =
     ''i18next-http-backend (node/'' @ node_version p @ ''; '' @ node_platform p @ '' '' @
     node_arch p @ '')''"

text \<open>
  The configured custom headers (a mapping, or a function called without arguments) and
  the configured \<^verbatim>\<open>requestOptions\<close> (an object, or a function of the payload;
  \<^verbatim>\<open>{}\<close> when there is none), as \<^verbatim>\<open>buildFetchOptions\<close> resolves them.
\<close>

definition resolve_customHeaders :: "backend_options \<Rightarrow> (string \<rightharpoonup> string) option" where
  "resolve_customHeaders opts =
     (case customHeaders opts of None \<Rightarrow> None | Some c \<Rightarrow> Some (resolve c ()))"

definition resolve_requestOptions :: "backend_options \<Rightarrow> js_value \<Rightarrow> request_init" where
  "resolve_requestOptions opts payload =
     (case requestOptions opts of None \<Rightarrow> empty_request_init | Some r \<Rightarrow> resolve r payload)"

text \<open>\<^verbatim>\<open>this.options.stringify || JSON.stringify\<close>.\<close>

definition stringifier :: "platform \<Rightarrow> backend_options \<Rightarrow> js_value \<Rightarrow> string" where
  "stringifier P opts = (case stringify opts of None \<Rightarrow> JSON_stringify P | Some f \<Rightarrow> f)"

definition buildFetchOptions :: "platform \<Rightarrow> backend \<Rightarrow> js_value \<Rightarrow> request_init" where
  "buildFetchOptions P this payload =
     (let opts = this_options this;
          headers1 =
            (case resolve_customHeaders opts of None \<Rightarrow> Map.empty | Some h \<Rightarrow> Map.empty ++ h);
          headers2 =
            (case nodeProcess P of
               None \<Rightarrow> headers1
             | Some p \<Rightarrow> headers1(''User-Agent'' \<mapsto> userAgent p));
          headers3 =
            (if truthy payload then headers2(''Content-Type'' \<mapsto> ''application/json'')
             else headers2);
          reqOptions = resolve_requestOptions opts payload
      in spread_request_init
           \<lparr>ri_method = Some (if truthy payload then ''POST'' else ''GET''),
            ri_headers =
              Some (headers3 ++
                    (case ri_headers reqOptions of None \<Rightarrow> Map.empty | Some h \<Rightarrow> h)),
            ri_body = (if truthy payload then Some (stringifier P opts payload) else None),
            ri_credentials =
              Some (if withCredentials opts = Some True then ''include'' else ''same-origin''),
            ri_mode = Some (if crossDomain opts = Some True then ''cors'' else ''same-origin'')\<rparr>
           reqOptions)"

text \<open>The value of a header in a built request.\<close>

definition header_of :: "request_init \<Rightarrow> string \<Rightarrow> string option" where
  "header_of init name = (case ri_headers init of None \<Rightarrow> None | Some h \<Rightarrow> h name)"

text \<open>
  Parsing the body: the configured \<^verbatim>\<open>parse\<close> when there is one, else
  \<^verbatim>\<open>JSON.parse\<close>, with the empty object for an empty body. \<open>None\<close>: the parser threw.
\<close>

definition parse_body :: "platform \<Rightarrow> backend_options \<Rightarrow> string \<Rightarrow> js_value option" where
  "parse_body P opts textData =
     (case parse opts of
        Some f \<Rightarrow> f textData
      | None \<Rightarrow> if textData \<noteq> [] then JSON_parse P textData else Some (JObj fmempty))"

text \<open>The two errors the query function raises itself.\<close>

definition http_error :: "fetch_response \<Rightarrow> js_error" where
  "http_error response =
     (new_error (''HTTP '' @ string_of_int (resp_status response) @ '': '' @
                 resp_statusText response))
       \<lparr>e_status := Some (resp_status response)\<rparr>"

definition parse_failure :: "string \<Rightarrow> js_error" where
  "parse_failure url =
     (new_error (''Failed to parse response from '' @ url))\<lparr>e_name := Some ''SyntaxError''\<rparr>"

text \<open>
  One run of the function returned by \<^verbatim>\<open>createQueryFn(url, payload)\<close>: everything
  thrown inside is caught and rethrown through \<open>transformError\<close>.
\<close>

definition createQueryFn ::
  "platform \<Rightarrow> backend \<Rightarrow> string \<Rightarrow> js_value \<Rightarrow> js_error + i18next_response" where
  "createQueryFn P this url payload =
     (let finalUrl = addQueryString P url (queryStringParams (this_options this));
          fetchOptions = buildFetchOptions P this payload
      in case fetch P finalUrl fetchOptions of
           Inl error \<Rightarrow> Inl (transformError error url)
         | Inr response \<Rightarrow>
             if \<not> resp_ok response then
               Inl (transformError (Some (http_error response)) url)
             else
               (case parse_body P (this_options this) (resp_text response) of
                  None \<Rightarrow> Inl (transformError (Some (parse_failure url)) url)
                | Some parsedData \<Rightarrow>
                    Inr \<lparr>status = resp_status response, data = parsedData\<rparr>))"

text \<open>\<^verbatim>\<open>mergedOptions.tanstackQuery?.p\<close>.\<close>

definition tq_prop ::
  "(tanstack_query_options \<Rightarrow> 'a option) \<Rightarrow> backend_options \<Rightarrow> 'a option" where
  "tq_prop f options = (case tanstackQuery options of None \<Rightarrow> None | Some t \<Rightarrow> f t)"

definition delay_truthy :: "retry_delay_setting \<Rightarrow> bool" where
  "delay_truthy d = (case d of DelayMs n \<Rightarrow> n \<noteq> 0 | DelayFn f \<Rightarrow> True)"

text \<open>
  What the name \<^verbatim>\<open>queryKeys\<close> evaluates to in the module of the backend. The module
  imports it in the list of \<^verbatim>\<open>import type { ... } from "./types.js"\<close>. A type-only
  import is erased, so the name is bound to nothing when the module runs (\<open>None\<close>), and
  evaluating it throws \<^verbatim>\<open>ReferenceError: queryKeys is not defined\<close>.
\<close>

definition imported_queryKeys :: "key_factory option" where
  "imported_queryKeys = None"

definition reference_error :: "string \<Rightarrow> js_error" where
  "reference_error name =
     (new_error (name @ '' is not defined''))\<lparr>e_name := Some ''ReferenceError''\<rparr>"

text \<open>
  The query key that \<^verbatim>\<open>request\<close> and \<^verbatim>\<open>getCachedData\<close> build from the key factory
  that \<^verbatim>\<open>queryKeys\<close> has evaluated to; \<open>request_queryKey\<close> is that key for the
  factory declared with the types, which the import names.
\<close>

definition queryKey_with :: "key_factory \<Rightarrow> string \<Rightarrow> js_value \<Rightarrow> js_value list" where
  "queryKey_with queryKeys url payload =
     (if truthy payload then kf_create queryKeys url payload
      else kf_load queryKeys url payload)"

definition request_queryKey :: "string \<Rightarrow> js_value \<Rightarrow> js_value list" where
  "request_queryKey url payload =
     (if truthy payload then types_queryKeys_create url payload
      else types_queryKeys_load url payload)"

text \<open>
  The query options that \<^verbatim>\<open>request\<close> hands to the cache client. The query function
  is built from \<^verbatim>\<open>this.options\<close>, the retry settings from the merged options.
\<close>

definition request_queryOptions ::
  "key_factory \<Rightarrow> platform \<Rightarrow> backend \<Rightarrow> backend_options \<Rightarrow> string \<Rightarrow> js_value \<Rightarrow>
   query_options" where
  "request_queryOptions queryKeys P this options url payload =
     (let mergedOptions = spread_options (this_options this) options
      in \<lparr>queryKey = queryKey_with queryKeys url payload,
          queryFn =
            (\<lambda>_. case createQueryFn P this url payload of
                    Inl error \<Rightarrow> Inl (Some error)
                  | Inr response \<Rightarrow> Inr response),
          q_staleTime = tq_prop staleTime mergedOptions,
          q_cacheTime = tq_prop cacheTime mergedOptions,
          q_retry =
            (\<lambda>failureCount error.
               let maxRetries =
                     (case tq_prop retry mergedOptions of
                        Some (RetryCount n) \<Rightarrow> n
                      | _ \<Rightarrow> 3)
               in if failureCount \<ge> maxRetries then False else shouldRetry error),
          q_retryDelay =
            (case tq_prop retryDelay mergedOptions of
               None \<Rightarrow> DelayFn getRetryDelay
             | Some d \<Rightarrow> if delay_truthy d then d else DelayFn getRetryDelay),
          q_refetchOnWindowFocus =
            (case tq_prop refetchOnWindowFocus mergedOptions of None \<Rightarrow> False | Some b \<Rightarrow> b),
          q_refetchOnReconnect =
            (case tq_prop refetchOnReconnect mergedOptions of None \<Rightarrow> True | Some b \<Rightarrow> b)\<rparr>)"

text \<open>
  The rest of \<^verbatim>\<open>request\<close> once \<^verbatim>\<open>queryKeys\<close> has evaluated to a key factory:
  the fetch through the cache client inside the \<^verbatim>\<open>try\<close> block; what the client rejects
  with is normalised once more.
\<close>

definition request_body ::
  "key_factory \<Rightarrow> platform \<Rightarrow> backend \<Rightarrow> backend_options \<Rightarrow> string \<Rightarrow> js_value \<Rightarrow>
   js_error + i18next_response" where
  "request_body queryKeys P this options url payload =
     (case fetchQuery (this_queryClient this)
             (request_queryOptions queryKeys P this options url payload) of
        Inr response \<Rightarrow> Inr response
      | Inl error \<Rightarrow> Inl (transformError error url))"

text \<open>
  \<^verbatim>\<open>request\<close>. It evaluates \<^verbatim>\<open>queryKeys\<close> for the query key before its
  \<^verbatim>\<open>try\<close> block, so the ReferenceError of the unbound name is what the returned
  promise rejects with, not passed through \<open>transformError\<close>.
\<close>

definition request ::
  "platform \<Rightarrow> backend \<Rightarrow> backend_options \<Rightarrow> string \<Rightarrow> js_value \<Rightarrow>
   js_error + i18next_response" where
  "request P this options url payload =
     (case imported_queryKeys of
        None \<Rightarrow> Inl (reference_error ''queryKeys'')
      | Some queryKeys \<Rightarrow> request_body queryKeys P this options url payload)"

text \<open>
  \<^verbatim>\<open>requestWithCallback\<close>: the value is the pair of arguments the callback is called
  with, \<open>None\<close> for \<^verbatim>\<open>null\<close>; the callback itself returns normally. The sentinel
  \<^verbatim>\<open>{ status: 0 }\<close> has no \<^verbatim>\<open>data\<close>. \<open>settle_callback\<close> is its
  \<^verbatim>\<open>try\<close>/\<^verbatim>\<open>catch\<close> around the awaited request.
\<close>

record callback_args =
  cb_error :: "string option"
  cb_response :: "i18next_response option"

definition retry_sentinel :: i18next_response where
  "retry_sentinel = \<lparr>status = 0, data = JUndefined\<rparr>"

definition settle_callback :: "js_error + i18next_response \<Rightarrow> callback_args" where
  "settle_callback outcome =
     (case outcome of
        Inr response \<Rightarrow> \<lparr>cb_error = None, cb_response = Some response\<rparr>
      | Inl error \<Rightarrow>
          (let processedError = processForCallback (Some error)
           in \<lparr>cb_error = p_error processedError,
               cb_response = (if p_retry processedError then Some retry_sentinel else None)\<rparr>))"

definition requestWithCallback ::
  "platform \<Rightarrow> backend \<Rightarrow> backend_options \<Rightarrow> string \<Rightarrow> js_value \<Rightarrow> callback_args" where
  "requestWithCallback P this options url payload =
     settle_callback (request P this options url payload)"

text \<open>
  \<^verbatim>\<open>invalidateQueries(urlPattern)\<close>: the filter it hands the cache client, or what it
  throws. With a pattern the filter is a predicate on the third element of the key.
  Without one the filter is to be the key \<^verbatim>\<open>queryKeys.all\<close>, which evaluates the
  unbound name.
\<close>

datatype query_filters = ByPredicate "js_value list \<Rightarrow> bool" | ByQueryKey "js_value list"

definition invalidateQueries :: "string option \<Rightarrow> js_error + query_filters" where
  "invalidateQueries urlPattern =
     (if str_truthy urlPattern then
        Inr (ByPredicate
          (\<lambda>key. case drop 2 key of
                    JStr url # _ \<Rightarrow> str_includes url (template_str urlPattern)
                  | _ \<Rightarrow> False))
      else
        (case imported_queryKeys of
           None \<Rightarrow> Inl (reference_error ''queryKeys'')
         | Some queryKeys \<Rightarrow> Inr (ByQueryKey (kf_all queryKeys))))"

text \<open>
  The cache client's side of a filter: a predicate selects the queries it accepts, a key
  of strings selects the queries whose key starts with it.
\<close>

definition filter_selects :: "query_filters \<Rightarrow> js_value list \<Rightarrow> bool" where
  "filter_selects f key = (case f of ByPredicate p \<Rightarrow> p key | ByQueryKey k \<Rightarrow> prefix k key)"

section \<open>Type guards (lib/react-native-config.ts)\<close>

definition isQueryClientAvailable :: "backend_options \<Rightarrow> bool" where
  "isQueryClientAvailable options =
     (queryClient options \<noteq> None \<and> tq_prop enabled options \<noteq> Some False)"

definition isTanstackQueryEnabled :: "backend_options \<Rightarrow> bool" where
  "isTanstackQueryEnabled options =
     (tq_prop enabled options = Some True \<and> queryClient options \<noteq> None)"

section \<open>The resource loader's choice of path\<close>

datatype load_path = CacheBacked | DirectTransport

text \<open>
  Modelled from the spec: the Resource Loader's decision between its two paths. The loader
  (the plugin class with \<^verbatim>\<open>read\<close>, in \<^verbatim>\<open>lib/index.js\<close>) is not among the
  sources. The spec: cache configuration is only honoured when both an external
  cache-client handle and an explicit enabled flag are present; absence of either falls
  back to the direct-transport path.
\<close>

definition loader_path :: "backend_options \<Rightarrow> load_path" where
  "loader_path options =
     (if queryClient options \<noteq> None \<and> tq_prop enabled options = Some True then CacheBacked
      else DirectTransport)"

text \<open>
  Modelled from the spec: the outcome the loader reports to its callback, given the
  outcome of the direct transport call and that of the fetch through the cache client
  (both made by code that is not among the sources).
\<close>

definition loader_outcome :: "backend_options \<Rightarrow> 'r \<Rightarrow> 'r \<Rightarrow> 'r" where
  "loader_outcome options direct cached =
     (case loader_path options of DirectTransport \<Rightarrow> direct | CacheBacked \<Rightarrow> cached)"

section \<open>The plugin's cache configuration\<close>

text \<open>
  Modelled from the spec: the documented defaults of the cache configuration of the
  plugin class (\<^verbatim>\<open>Backend\<close>, in \<^verbatim>\<open>lib/index.js\<close>), which is not among the sources;
  its tests (\<^verbatim>\<open>test/tanstack-basic.spec.js\<close>, \<^verbatim>\<open>verify-integration.js\<close>) expect
  these values of \<^verbatim>\<open>new Backend(services, {}).options.tanstackQuery\<close>. The spec:
  cache integration disabled by default, freshness window 5 minutes, retention window 10
  minutes, 3 retries, refetch-on-focus false, refetch-on-reconnect true. It documents no
  default for the retry delay.
\<close>

definition documented_tanstackQuery :: tanstack_query_options where
  "documented_tanstackQuery =
     \<lparr>enabled = Some False,
      staleTime = Some (5 * 60 * 1000),
      cacheTime = Some (10 * 60 * 1000),
      retry = Some (RetryCount 3),
      retryDelay = None,
      refetchOnWindowFocus = Some False,
      refetchOnReconnect = Some True\<rparr>"

text \<open>
  Modelled from the spec: the cache configuration of a plugin constructed with the given
  options (the constructor of \<^verbatim>\<open>Backend\<close> is not among the sources). The spec: all
  fields are optional, with the documented defaults.
\<close>

definition Backend_tanstackQuery :: "backend_options \<Rightarrow> tanstack_query_options" where
  "Backend_tanstackQuery options =
     \<lparr>enabled = spread_prop (enabled documented_tanstackQuery) (tq_prop enabled options),
      staleTime = spread_prop (staleTime documented_tanstackQuery) (tq_prop staleTime options),
      cacheTime = spread_prop (cacheTime documented_tanstackQuery) (tq_prop cacheTime options),
      retry = spread_prop (retry documented_tanstackQuery) (tq_prop retry options),
      retryDelay =
        spread_prop (retryDelay documented_tanstackQuery) (tq_prop retryDelay options),
      refetchOnWindowFocus =
        spread_prop (refetchOnWindowFocus documented_tanstackQuery)
          (tq_prop refetchOnWindowFocus options),
      refetchOnReconnect =
        spread_prop (refetchOnReconnect documented_tanstackQuery)
          (tq_prop refetchOnReconnect options)\<rparr>"

section \<open>Concrete runs\<close>

text \<open>
  A runtime outside Node.js whose \<^verbatim>\<open>fetch\<close> settles the same way for every
  request and whose JSON functions are those of the platform on the empty object
  \<^verbatim>\<open>{}\<close> (the runs below parse and print nothing else that is well formed), and a
  cache client with an empty cache and no retries, which runs the query function once.
\<close>

definition example_platform :: "fetch_response settled \<Rightarrow> platform" where
  "example_platform outcome =
     \<lparr>nodeProcess = None,
      JSON_stringify = (\<lambda>v. ''{}''),
      JSON_parse = (\<lambda>s. if s = ''{}'' then Some (JObj fmempty) else None),
      encodeURIComponent = (\<lambda>s. s),
      fetch = (\<lambda>url init. outcome)\<rparr>"

definition passthrough_client :: query_client where
  "passthrough_client = \<lparr>fetchQuery = (\<lambda>q. queryFn q ())\<rparr>"

definition served :: "int \<Rightarrow> string \<Rightarrow> string \<Rightarrow> fetch_response settled" where
  "served code reason body =
     Inr \<lparr>resp_ok = (200 \<le> code \<and> code < 300), resp_status = code,
          resp_statusText = reason, resp_text = body\<rparr>"

section \<open>Lemmas about strings and the error handler\<close>

lemma str_includes_iff: "str_includes s t \<longleftrightarrow> (\<exists>p q. s = p @ t @ q)"
proof (induction s)
  case Nil
  then show ?case by auto
next
  case (Cons c cs)
  show ?case
  proof
    assume "str_includes (c # cs) t"
    then consider "prefix t (c # cs)" | "str_includes cs t" by auto
    then show "\<exists>p q. c # cs = p @ t @ q"
    proof cases
      case 1
      then obtain q where "c # cs = t @ q" by (auto simp: prefix_def)
      then have "c # cs = [] @ t @ q" by simp
      then show ?thesis by blast
    next
      case 2
      with Cons.IH obtain p q where "cs = p @ t @ q" by blast
      then have "c # cs = (c # p) @ t @ q" by simp
      then show ?thesis by blast
    qed
  next
    assume "\<exists>p q. c # cs = p @ t @ q"
    then obtain p q where pq: "c # cs = p @ t @ q" by blast
    show "str_includes (c # cs) t"
    proof (cases p)
      case Nil
      with pq have "prefix t (c # cs)" by (simp add: prefix_def)
      then show ?thesis by simp
    next
      case (Cons a p')
      with pq have "cs = p' @ t @ q" by simp
      with Cons.IH have "str_includes cs t" by blast
      then show ?thesis by simp
    qed
  qed
qed

lemma str_includes_toLowerCase:
  assumes "str_includes m t" and "toLowerCase t = t"
  shows "str_includes (toLowerCase m) t"
proof -
  from assms(1) obtain p q where "m = p @ t @ q" by (auto simp: str_includes_iff)
  then have "toLowerCase m = toLowerCase p @ toLowerCase t @ toLowerCase q"
    by (simp add: toLowerCase_def)
  with assms(2) show ?thesis by (auto simp: str_includes_iff)
qed

lemma toLowerCase_networkErrorTerms:
  "t \<in> set networkErrorTerms \<Longrightarrow> toLowerCase t = t"
  by (auto simp: networkErrorTerms_def toLowerCase_def toLowerCase_char_def)

lemma isNetworkError_term:
  assumes "err_prop e_message error = Some m" and "t \<in> set networkErrorTerms"
    and "str_includes m t"
  shows "isNetworkError error"
proof -
  have low: "str_includes (toLowerCase m) t"
    using assms(2,3) by (simp add: str_includes_toLowerCase toLowerCase_networkErrorTerms)
  have "t \<noteq> []" using assms(2) by (auto simp: networkErrorTerms_def)
  with assms(3) have "m \<noteq> []" by (cases m) auto
  with low assms(1,2) show ?thesis
    by (auto simp: isNetworkError_def list_ex_iff)
qed

lemma carried_status_Some:
  "carried_status error = Some s \<Longrightarrow> has_status_info error"
  by (simp add: carried_status_def split: if_splits)

lemma toLowerCase_append: "toLowerCase (a @ b) = toLowerCase a @ toLowerCase b"
  by (simp add: toLowerCase_def)

lemma toLowerCase_Failed:
  "toLowerCase ''Failed to parse response from '' = ''failed to parse response from ''"
  by (simp add: toLowerCase_def toLowerCase_char_def)

lemma toLowerCase_parse_message:
  "toLowerCase (''Failed to parse response from '' @ url) =
     ''failed to parse response from '' @ toLowerCase url"
  by (simp only: toLowerCase_append toLowerCase_Failed)

lemma includes_failed: "str_includes (''failed to parse response from '' @ x) ''failed''"
  by simp

lemma isNetworkError_parse_failure: "isNetworkError (Some (parse_failure url))"
proof -
  have m: "err_prop e_message (Some (parse_failure url)) =
             Some (''Failed to parse response from '' @ url)"
    by (simp add: parse_failure_def new_error_def err_prop_def)
  have inc: "str_includes (toLowerCase (''Failed to parse response from '' @ url)) ''failed''"
    by (simp only: toLowerCase_parse_message includes_failed)
  have "''failed'' \<in> set networkErrorTerms" by (simp add: networkErrorTerms_def)
  with inc have "list_ex (\<lambda>term. str_includes
      (toLowerCase (''Failed to parse response from '' @ url)) term) networkErrorTerms"
    unfolding list_ex_iff by blast
  then show ?thesis by (simp add: isNetworkError_def m)
qed

lemma carried_status_parse_failure: "\<not> has_status_info (Some (parse_failure url))"
  by (simp add: has_status_info_def parse_failure_def new_error_def err_prop_def num_truthy_def)

lemma transformError_parse_failure:
  "transformError (Some (parse_failure url)) url =
     \<lparr>e_name = Some ''Error'',
      e_message = Some (''failed loading '' @ url @ '': Failed to parse response from '' @ url),
      e_status = None, e_response = None, e_url = Some url, e_retry = Some True\<rparr>"
  by (simp add: transformError_def Let_def isNetworkError_parse_failure
      carried_status_parse_failure)
    (simp add: parse_failure_def new_error_def err_prop_def template_str_def)

lemma createQueryFn_parse_failure:
  assumes "fetch P (addQueryString P url (queryStringParams (this_options this)))
             (buildFetchOptions P this payload) = Inr response"
    and "resp_ok response"
    and "parse_body P (this_options this) (resp_text response) = None"
  shows "createQueryFn P this url payload = Inl (transformError (Some (parse_failure url)) url)"
  using assms by (simp add: createQueryFn_def Let_def)

lemma transformError_retry_set:
  "e_retry (transformError error url) = Some True \<or>
   e_retry (transformError error url) = Some False"
  by (simp add: transformError_def Let_def)

lemma transformError_message_set: "\<exists>m. e_message (transformError error url) = Some m"
  by (simp add: transformError_def Let_def)

lemma transformError_status:
  "e_status (transformError error url) =
     (if has_status_info error then carried_status error else None)"
  by (simp add: transformError_def Let_def new_error_def)

lemma transformError_retry:
  "e_retry (transformError error url) =
     Some (if has_status_info error \<and> in_range 500 600 (carried_status error) then True
           else if has_status_info error \<and> in_range 400 500 (carried_status error) then False
           else isNetworkError error)"
  by (simp add: transformError_def Let_def)

lemma in_range_None: "\<not> in_range lo hi None"
  by (simp add: in_range_def)

lemma in_range_disjoint: "in_range 400 500 a \<Longrightarrow> \<not> in_range 500 600 a"
  by (auto simp: in_range_def split: option.splits)

lemma transformError_5xx_retry:
  "in_range 500 600 (e_status (transformError error url)) \<Longrightarrow>
   e_retry (transformError error url) = Some True"
  by (simp add: transformError_status transformError_retry in_range_None split: if_splits)

lemma transformError_4xx_no_retry:
  "in_range 400 500 (e_status (transformError error url)) \<Longrightarrow>
   e_retry (transformError error url) = Some False"
  by (auto simp: transformError_status transformError_retry in_range_None
      dest: in_range_disjoint split: if_splits)

lemma request_body_Inl_normalised:
  "request_body queryKeys P this options url payload = Inl error \<Longrightarrow>
   \<exists>raw. error = transformError raw url"
  by (auto simp: request_body_def split: sum.splits)

lemma TanStackI18nextBackend_own_defaults:
  "tanstackQuery options = None \<Longrightarrow>
   tanstackQuery (this_options (TanStackI18nextBackend client options)) =
     Some default_tanstackQuery"
  by (simp add: TanStackI18nextBackend_def spread_options_def empty_options_def spread_prop_def)

lemma queryKey_with_types: "queryKey_with types_queryKeys url payload = request_queryKey url payload"
  by (simp add: queryKey_with_def request_queryKey_def types_queryKeys_def)

lemma processForCallback_retry:
  "p_retry (processForCallback (Some e)) =
     (e_retry e = Some True \<or> in_range 500 600 (e_status e))"
  by (auto simp: processForCallback_def in_range_def num_truthy_def split: option.splits)

lemma processForCallback_error: "p_error (processForCallback (Some e)) = e_message e"
  by (simp add: processForCallback_def)

lemma prefix_singleton: "prefix [x] key \<longleftrightarrow> key \<noteq> [] \<and> hd key = x"
  by (cases key) auto

text \<open>
  With \<^verbatim>\<open>queryKeys\<close> bound to a key factory, the rest of \<^verbatim>\<open>request\<close> and the
  \<^verbatim>\<open>try\<close>/\<^verbatim>\<open>catch\<close> of \<^verbatim>\<open>requestWithCallback\<close> give the callback
  \<^verbatim>\<open>(null, response)\<close> on success and, on failure, the normalised error's message
  with the sentinel exactly when the retry flag is true or the status is in [500,600).
\<close>

lemma settle_callback_request_body:
  "(request_body queryKeys P this options url payload = Inr response \<longrightarrow>
      settle_callback (request_body queryKeys P this options url payload) =
        \<lparr>cb_error = None, cb_response = Some response\<rparr>) \<and>
   (request_body queryKeys P this options url payload = Inl error \<longrightarrow>
      cb_error (settle_callback (request_body queryKeys P this options url payload)) = e_message error \<and>
      e_message error \<noteq> None \<and>
      cb_response (settle_callback (request_body queryKeys P this options url payload)) =
        (if e_retry error = Some True \<or> in_range 500 600 (e_status error)
         then Some retry_sentinel else None) \<and>
      (e_retry error = Some True \<or> e_retry error = Some False) \<and>
      (in_range 500 600 (e_status error) \<longrightarrow> e_retry error = Some True) \<and>
      (in_range 400 500 (e_status error) \<longrightarrow> e_retry error = Some False))"
proof (intro conjI impI)
  assume "request_body queryKeys P this options url payload = Inr response"
  then show "settle_callback (request_body queryKeys P this options url payload) =
        \<lparr>cb_error = None, cb_response = Some response\<rparr>"
    by (simp add: settle_callback_def)
next
  assume h: "request_body queryKeys P this options url payload = Inl error"
  then obtain raw where e: "error = transformError raw url"
    using request_body_Inl_normalised by blast
  from h show "cb_error (settle_callback (request_body queryKeys P this options url payload)) = e_message error"
    by (simp add: settle_callback_def Let_def processForCallback_error)
  from e show "e_message error \<noteq> None" using transformError_message_set [of raw url] by auto
  from h show "cb_response (settle_callback (request_body queryKeys P this options url payload)) =
        (if e_retry error = Some True \<or> in_range 500 600 (e_status error)
         then Some retry_sentinel else None)"
    by (simp add: settle_callback_def Let_def processForCallback_retry)
  from e show "e_retry error = Some True \<or> e_retry error = Some False"
    by (simp add: transformError_retry_set)
  show "e_retry error = Some True" if "in_range 500 600 (e_status error)"
    using that e by (simp add: transformError_5xx_retry)
  show "e_retry error = Some False" if "in_range 400 500 (e_status error)"
    using that e by (simp add: transformError_4xx_no_retry)
qed

text \<open>
  Three runs of it, against servers answering 200 with \<^verbatim>\<open>{}\<close>, 503 and 404, behind
  a cache client that runs the query function once.
\<close>

lemma settle_callback_request_body_runs:
  "settle_callback (request_body types_queryKeys (example_platform (served 200 ''OK'' ''{}''))
      (TanStackI18nextBackend passthrough_client empty_options) empty_options
      ''/locales/en/test'' JUndefined) =
     \<lparr>cb_error = None, cb_response = Some \<lparr>status = 200, data = JObj fmempty\<rparr>\<rparr> \<and>
   cb_error (settle_callback (request_body types_queryKeys
      (example_platform (served 503 ''Service Unavailable'' []))
      (TanStackI18nextBackend passthrough_client empty_options) empty_options
      ''/locales/en/test'' JUndefined)) =
     Some ''failed loading /locales/en/test; status code: 503'' \<and>
   cb_response (settle_callback (request_body types_queryKeys
      (example_platform (served 503 ''Service Unavailable'' []))
      (TanStackI18nextBackend passthrough_client empty_options) empty_options
      ''/locales/en/test'' JUndefined)) =
     Some \<lparr>status = 0, data = JUndefined\<rparr> \<and>
   cb_error (settle_callback (request_body types_queryKeys
      (example_platform (served 404 ''Not Found'' []))
      (TanStackI18nextBackend passthrough_client empty_options) empty_options
      ''/locales/en/test'' JUndefined)) =
     Some ''failed loading /locales/en/test; status code: 404'' \<and>
   cb_response (settle_callback (request_body types_queryKeys
      (example_platform (served 404 ''Not Found'' []))
      (TanStackI18nextBackend passthrough_client empty_options) empty_options
      ''/locales/en/test'' JUndefined)) = None"
proof -
  let ?B = "TanStackI18nextBackend passthrough_client empty_options"
  let ?u = "''/locales/en/test''"
  note defs = request_body_def request_queryOptions_def createQueryFn_def Let_def
      example_platform_def served_def passthrough_client_def TanStackI18nextBackend_def
      http_error_def new_error_def transformError_def has_status_info_def carried_status_def
      err_prop_def num_truthy_def num_or_def in_range_def template_num_def
      string_of_int_def string_of_nat.simps parse_body_def spread_options_def
      empty_options_def spread_prop_def
  have ok: "request_body types_queryKeys (example_platform (served 200 ''OK'' ''{}'')) ?B
      empty_options ?u JUndefined =
      Inr \<lparr>status = 200, data = JObj fmempty\<rparr>"
    by (simp add: defs)
  have e5: "request_body types_queryKeys
      (example_platform (served 503 ''Service Unavailable'' [])) ?B empty_options ?u JUndefined =
      Inl \<lparr>e_name = Some ''Error'',
        e_message = Some ''failed loading /locales/en/test; status code: 503'',
        e_status = Some 503, e_response = None, e_url = Some ''/locales/en/test'',
        e_retry = Some True\<rparr>"
    by (simp add: defs)
  have e4: "request_body types_queryKeys
      (example_platform (served 404 ''Not Found'' [])) ?B empty_options ?u JUndefined =
      Inl \<lparr>e_name = Some ''Error'',
        e_message = Some ''failed loading /locales/en/test; status code: 404'',
        e_status = Some 404, e_response = None, e_url = Some ''/locales/en/test'',
        e_retry = Some False\<rparr>"
    by (simp add: defs)
  show ?thesis
    using settle_callback_request_body [THEN conjunct1, rule_format, OF ok]
      settle_callback_request_body [THEN conjunct2, rule_format, OF e5]
      settle_callback_request_body [THEN conjunct2, rule_format, OF e4]
    by (simp add: retry_sentinel_def in_range_def)
qed

section \<open>Error classification\<close>

text \<open>
  C1. A raw error carries a status through its own \<^verbatim>\<open>status\<close> or through the
  \<^verbatim>\<open>status\<close> of its \<^verbatim>\<open>response\<close>. For every raw error carrying a status
  \<open>s\<close>, \<open>transformError\<close> classifies it by \<open>s\<close>: a status in [500,600) yields
  \<open>retry = true\<close>, a status in [400,500) yields \<open>retry = false\<close>, and in both cases the
  message is \<^verbatim>\<open>failed loading <url>; status code: <s>\<close>. A raw error without a
  status whose message contains one of the six network-failure terms yields
  \<open>retry = true\<close>.
\<close>

theorem transformError_classifies:
  "(e_response e = None \<and> e_status e = Some s \<and> s \<noteq> 0 \<longrightarrow>
      carried_status (Some e) = Some s) \<and>
   (e_response e = Some \<lparr>rl_status = Some s\<rparr> \<and> s \<noteq> 0 \<longrightarrow>
      carried_status (Some e) = Some s) \<and>
   (carried_status error = Some s \<and> 500 \<le> s \<and> s < 600 \<longrightarrow>
      e_retry (transformError error url) = Some True \<and>
      e_status (transformError error url) = Some s \<and>
      e_message (transformError error url) =
        Some (''failed loading '' @ url @ ''; status code: '' @ string_of_int s)) \<and>
   (carried_status error = Some s \<and> 400 \<le> s \<and> s < 500 \<longrightarrow>
      e_retry (transformError error url) = Some False \<and>
      e_status (transformError error url) = Some s \<and>
      e_message (transformError error url) =
        Some (''failed loading '' @ url @ ''; status code: '' @ string_of_int s)) \<and>
   (carried_status error = None \<and> err_prop e_message error = Some m \<and>
    t \<in> set networkErrorTerms \<and> str_includes m t \<longrightarrow>
      e_retry (transformError error url) = Some True)"
proof (intro conjI impI)
  assume "e_response e = None \<and> e_status e = Some s \<and> s \<noteq> 0"
  then show "carried_status (Some e) = Some s"
    by (simp add: carried_status_def has_status_info_def err_prop_def num_or_def num_truthy_def)
next
  assume "e_response e = Some \<lparr>rl_status = Some s\<rparr> \<and> s \<noteq> 0"
  then show "carried_status (Some e) = Some s"
    by (simp add: carried_status_def has_status_info_def err_prop_def num_or_def num_truthy_def)
next
  assume h: "carried_status error = Some s \<and> 500 \<le> s \<and> s < 600"
  then have g: "has_status_info error" by (simp add: carried_status_Some)
  from h g show "e_retry (transformError error url) = Some True"
    by (simp add: transformError_def Let_def in_range_def)
  from h g show "e_status (transformError error url) = Some s"
    by (simp add: transformError_def Let_def in_range_def)
  from h g show "e_message (transformError error url) =
        Some (''failed loading '' @ url @ ''; status code: '' @ string_of_int s)"
    by (simp add: transformError_def Let_def in_range_def template_num_def)
next
  assume h: "carried_status error = Some s \<and> 400 \<le> s \<and> s < 500"
  then have g: "has_status_info error" by (simp add: carried_status_Some)
  from h g show "e_retry (transformError error url) = Some False"
    by (simp add: transformError_def Let_def in_range_def)
  from h g show "e_status (transformError error url) = Some s"
    by (simp add: transformError_def Let_def in_range_def)
  from h g show "e_message (transformError error url) =
        Some (''failed loading '' @ url @ ''; status code: '' @ string_of_int s)"
    by (simp add: transformError_def Let_def in_range_def template_num_def)
next
  assume h: "carried_status error = None \<and> err_prop e_message error = Some m \<and>
    t \<in> set networkErrorTerms \<and> str_includes m t"
  then have "isNetworkError error" by (blast intro: isNetworkError_term)
  with h show "e_retry (transformError error url) = Some True"
    by (simp add: transformError_def Let_def in_range_def)
qed

text \<open>
  The theorem at three errors: a 503 carried by the error itself, a 404 carried by its
  response, and a message that mentions the network.
\<close>

theorem transformError_classifies_witness:
  "(carried_status (Some ((new_error ''HTTP 503: Service Unavailable'')\<lparr>e_status := Some 503\<rparr>)) = Some 503 \<and>
    e_retry (transformError (Some ((new_error ''HTTP 503: Service Unavailable'')\<lparr>e_status := Some 503\<rparr>))
       ''/locales/en/test'') = Some True \<and>
    e_message (transformError (Some ((new_error ''HTTP 503: Service Unavailable'')\<lparr>e_status := Some 503\<rparr>))
       ''/locales/en/test'') = Some ''failed loading /locales/en/test; status code: 503'') \<and>
   (carried_status (Some ((new_error ''Not Found'')\<lparr>e_response := Some \<lparr>rl_status = Some 404\<rparr>\<rparr>)) = Some 404 \<and>
    e_retry (transformError (Some ((new_error ''Not Found'')\<lparr>e_response := Some \<lparr>rl_status = Some 404\<rparr>\<rparr>))
       ''/locales/en/test'') = Some False \<and>
    e_message (transformError (Some ((new_error ''Not Found'')\<lparr>e_response := Some \<lparr>rl_status = Some 404\<rparr>\<rparr>))
       ''/locales/en/test'') = Some ''failed loading /locales/en/test; status code: 404'') \<and>
   (carried_status (Some (new_error ''a network problem'')) = None \<and>
    str_includes ''a network problem'' ''network'' \<and>
    e_retry (transformError (Some (new_error ''a network problem'')) ''/locales/en/test'') = Some True)"
proof -
  let ?e5 = "Some ((new_error ''HTTP 503: Service Unavailable'')\<lparr>e_status := Some 503\<rparr>)"
  let ?e4 = "Some ((new_error ''Not Found'')\<lparr>e_response := Some \<lparr>rl_status = Some 404\<rparr>\<rparr>)"
  let ?en = "Some (new_error ''a network problem'')"
  have c5: "carried_status ?e5 = Some 503"
    by (simp add: carried_status_def has_status_info_def err_prop_def new_error_def num_or_def
        num_truthy_def)
  have c4: "carried_status ?e4 = Some 404"
    by (simp add: carried_status_def has_status_info_def err_prop_def new_error_def num_or_def
        num_truthy_def)
  have cn: "carried_status ?en = None"
    by (simp add: carried_status_def has_status_info_def err_prop_def new_error_def num_truthy_def)
  have mn: "err_prop e_message ?en = Some ''a network problem''"
    by (simp add: err_prop_def new_error_def)
  have tn: "''network'' \<in> set networkErrorTerms" by (simp add: networkErrorTerms_def)
  have inc: "str_includes ''a network problem'' ''network''" by simp
  have s5: "string_of_int 503 = ''503''" by (simp add: string_of_int_def string_of_nat.simps)
  have s4: "string_of_int 404 = ''404''" by (simp add: string_of_int_def string_of_nat.simps)
  show ?thesis
    using transformError_classifies [where error = ?e5 and s = 503 and url = "''/locales/en/test''"]
      transformError_classifies [where error = ?e4 and s = 404 and url = "''/locales/en/test''"]
      transformError_classifies [where error = ?en and url = "''/locales/en/test''"
        and m = "''a network problem''" and t = "''network''"]
      c5 c4 cn mn tn inc s5 s4
    by simp
qed

text \<open>
  C2. The error that the query function raises for a body that does not parse, once
  through \<open>transformError\<close>: for every URL it is classified as a network failure, with
  \<open>retry = true\<close> and a \<^verbatim>\<open>failed loading\<close> message, because the message the query
  function gives it starts with \<^verbatim>\<open>Failed\<close>; the branch for parse errors
  (\<open>retry = false\<close>, \<^verbatim>\<open>failed parsing <url> to json\<close>) is not reached. The last
  conjunct runs the query function against a server that answers 200 with the body
  \<^verbatim>\<open>{\<close>.
\<close>

theorem parse_failure_classified_retryable:
  "e_retry (transformError (Some (parse_failure url)) url) = Some True \<and>
   e_message (transformError (Some (parse_failure url)) url) =
     Some (''failed loading '' @ url @ '': Failed to parse response from '' @ url) \<and>
   createQueryFn (example_platform (served 200 ''OK'' ''{''))
       (TanStackI18nextBackend passthrough_client empty_options) ''/locales/en/test'' JUndefined =
     Inl \<lparr>e_name = Some ''Error'',
          e_message = Some
            ''failed loading /locales/en/test: Failed to parse response from /locales/en/test'',
          e_status = None, e_response = None, e_url = Some ''/locales/en/test'',
          e_retry = Some True\<rparr>"
proof (intro conjI)
  show "e_retry (transformError (Some (parse_failure url)) url) = Some True"
    by (simp add: transformError_parse_failure)
  show "e_message (transformError (Some (parse_failure url)) url) =
     Some (''failed loading '' @ url @ '': Failed to parse response from '' @ url)"
    by (simp add: transformError_parse_failure)
  have "createQueryFn (example_platform (served 200 ''OK'' ''{''))
       (TanStackI18nextBackend passthrough_client empty_options) ''/locales/en/test'' JUndefined =
     Inl (transformError (Some (parse_failure ''/locales/en/test'')) ''/locales/en/test'')"
    by (rule createQueryFn_parse_failure [where response =
          "\<lparr>resp_ok = True, resp_status = 200, resp_statusText = ''OK'', resp_text = ''{''\<rparr>"])
      (simp_all add: example_platform_def served_def parse_body_def
        TanStackI18nextBackend_def spread_options_def empty_options_def spread_prop_def)
  then show "createQueryFn (example_platform (served 200 ''OK'' ''{''))
       (TanStackI18nextBackend passthrough_client empty_options) ''/locales/en/test'' JUndefined =
     Inl \<lparr>e_name = Some ''Error'',
          e_message = Some
            ''failed loading /locales/en/test: Failed to parse response from /locales/en/test'',
          e_status = None, e_response = None, e_url = Some ''/locales/en/test'',
          e_retry = Some True\<rparr>"
    by (simp add: transformError_parse_failure)
qed

text \<open>The theorem at the URL \<^verbatim>\<open>/locales/en/test\<close>.\<close>

theorem parse_failure_classified_retryable_witness:
  "e_retry (transformError (Some (parse_failure ''/locales/en/test'')) ''/locales/en/test'') =
     Some True \<and>
   e_message (transformError (Some (parse_failure ''/locales/en/test'')) ''/locales/en/test'') =
     Some ''failed loading /locales/en/test: Failed to parse response from /locales/en/test''"
  using parse_failure_classified_retryable [where url = "''/locales/en/test''"]
  by simp

section \<open>Retry delay\<close>

text \<open>
  C3. For every attempt index \<open>i\<close>, \<open>getRetryDelay i = min (1000 * 2 ^ i) 30000\<close>: it is
  1000 at attempt 0, doubles with each attempt as long as the double stays within the
  ceiling (and is the ceiling from then on), is monotonically non-decreasing, never
  exceeds 30000, and is 30000 (not 32000) at attempt 5.
\<close>

theorem getRetryDelay_backoff:
  "getRetryDelay i = min (1000 * 2 ^ i) 30000 \<and>
   getRetryDelay 0 = 1000 \<and>
   getRetryDelay (Suc i) = min (2 * getRetryDelay i) 30000 \<and>
   (2 * getRetryDelay i \<le> 30000 \<longrightarrow> getRetryDelay (Suc i) = 2 * getRetryDelay i) \<and>
   (i \<le> j \<longrightarrow> getRetryDelay i \<le> getRetryDelay j) \<and>
   getRetryDelay i \<le> 30000 \<and>
   getRetryDelay 5 = 30000"
proof (intro conjI impI)
  show "getRetryDelay i = min (1000 * 2 ^ i) 30000" by (simp add: getRetryDelay_def)
  show "getRetryDelay 0 = 1000" by (simp add: getRetryDelay_def)
  show d: "getRetryDelay (Suc i) = min (2 * getRetryDelay i) 30000"
    by (simp add: getRetryDelay_def min_def)
  show "getRetryDelay (Suc i) = 2 * getRetryDelay i" if "2 * getRetryDelay i \<le> 30000"
    using that d by simp
  show "getRetryDelay i \<le> getRetryDelay j" if "i \<le> j"
  proof -
    from that have "(2::nat) ^ i \<le> 2 ^ j" by (simp add: power_increasing)
    then have "(1000::nat) * 2 ^ i \<le> 1000 * 2 ^ j" by simp
    then have "min ((1000::nat) * 2 ^ i) 30000 \<le> min (1000 * 2 ^ j) 30000"
      by (intro min.mono) simp_all
    then show ?thesis by (simp only: getRetryDelay_def)
  qed
  show "getRetryDelay i \<le> 30000" by (simp add: getRetryDelay_def)
  show "getRetryDelay 5 = 30000" by (simp add: getRetryDelay_def)
qed

text \<open>The theorem at attempts 3, 4 and 5.\<close>

theorem getRetryDelay_backoff_witness:
  "(2 * getRetryDelay 3 \<le> 30000 \<and> getRetryDelay (Suc 3) = 2 * getRetryDelay 3) \<and>
   ((4::nat) \<le> 5 \<and> getRetryDelay 4 \<le> getRetryDelay 5) \<and>
   getRetryDelay 4 = 16000 \<and> getRetryDelay 5 = 30000 \<and> getRetryDelay 0 = 1000"
proof -
  have a: "getRetryDelay 3 = 8000" by (simp add: getRetryDelay_def)
  have b: "getRetryDelay 4 = 16000" by (simp add: getRetryDelay_def)
  show ?thesis using getRetryDelay_backoff [where i = 3 and j = 3]
      getRetryDelay_backoff [where i = 4 and j = 5] a b by simp
qed

section \<open>Building the request\<close>

text \<open>
  C4, as amended. For every payload and every configuration whose \<^verbatim>\<open>requestOptions\<close>
  (resolved for that payload) set neither \<^verbatim>\<open>method\<close> nor \<^verbatim>\<open>body\<close>, the request
  built by \<open>buildFetchOptions\<close> has method POST and the stringified payload as its body
  when the payload is present (truthy), and method GET and no body when it is absent.
  A \<^verbatim>\<open>method\<close> or \<^verbatim>\<open>body\<close> set by \<^verbatim>\<open>requestOptions\<close> replaces the built one.
\<close>

theorem buildFetchOptions_method_body:
  "(ri_method (resolve_requestOptions (this_options this) payload) = None \<and>
    ri_body (resolve_requestOptions (this_options this) payload) = None \<longrightarrow>
      (truthy payload \<longrightarrow>
         ri_method (buildFetchOptions P this payload) = Some ''POST'' \<and>
         ri_body (buildFetchOptions P this payload) =
           Some (stringifier P (this_options this) payload)) \<and>
      (\<not> truthy payload \<longrightarrow>
         ri_method (buildFetchOptions P this payload) = Some ''GET'' \<and>
         ri_body (buildFetchOptions P this payload) = None)) \<and>
   (ri_method (resolve_requestOptions (this_options this) payload) = Some m \<longrightarrow>
      ri_method (buildFetchOptions P this payload) = Some m) \<and>
   (ri_body (resolve_requestOptions (this_options this) payload) = Some b \<longrightarrow>
      ri_body (buildFetchOptions P this payload) = Some b)"
  by (simp add: buildFetchOptions_def Let_def spread_request_init_def spread_prop_def)

text \<open>
  The theorem at an empty configuration, with and without a payload, and at a
  configuration whose \<^verbatim>\<open>requestOptions\<close> set both properties.
\<close>

theorem buildFetchOptions_method_body_witness:
  "ri_method (buildFetchOptions (example_platform (served 200 ''OK'' ''{}''))
      (TanStackI18nextBackend passthrough_client empty_options) (JObj fmempty)) = Some ''POST'' \<and>
   ri_body (buildFetchOptions (example_platform (served 200 ''OK'' ''{}''))
      (TanStackI18nextBackend passthrough_client empty_options) (JObj fmempty)) = Some ''{}'' \<and>
   ri_method (buildFetchOptions (example_platform (served 200 ''OK'' ''{}''))
      (TanStackI18nextBackend passthrough_client empty_options) JUndefined) = Some ''GET'' \<and>
   ri_body (buildFetchOptions (example_platform (served 200 ''OK'' ''{}''))
      (TanStackI18nextBackend passthrough_client empty_options) JUndefined) = None \<and>
   ri_method (buildFetchOptions (example_platform (served 200 ''OK'' ''{}''))
      (TanStackI18nextBackend passthrough_client
         (empty_options\<lparr>requestOptions :=
            Some (Value (empty_request_init\<lparr>ri_method := Some ''PUT'', ri_body := Some ''x''\<rparr>))\<rparr>))
      (JObj fmempty)) = Some ''PUT''"
proof -
  let ?P = "example_platform (served 200 ''OK'' ''{}'')"
  let ?B = "TanStackI18nextBackend passthrough_client empty_options"
  let ?B' = "TanStackI18nextBackend passthrough_client
         (empty_options\<lparr>requestOptions :=
            Some (Value (empty_request_init\<lparr>ri_method := Some ''PUT'', ri_body := Some ''x''\<rparr>))\<rparr>)"
  have r: "resolve_requestOptions (this_options ?B) p = empty_request_init" for p
    by (simp add: TanStackI18nextBackend_def spread_options_def empty_options_def
        spread_prop_def resolve_requestOptions_def)
  have r': "resolve_requestOptions (this_options ?B') p =
      empty_request_init\<lparr>ri_method := Some ''PUT'', ri_body := Some ''x''\<rparr>" for p
    by (simp add: TanStackI18nextBackend_def spread_options_def empty_options_def
        spread_prop_def resolve_requestOptions_def)
  have s: "stringifier ?P (this_options ?B) (JObj fmempty) = ''{}''"
    by (simp add: stringifier_def TanStackI18nextBackend_def spread_options_def empty_options_def
        spread_prop_def example_platform_def)
  show ?thesis
    using buildFetchOptions_method_body [where this = ?B and payload = "JObj fmempty" and P = ?P]
      buildFetchOptions_method_body [where this = ?B and payload = JUndefined and P = ?P]
      buildFetchOptions_method_body [where this = ?B' and payload = "JObj fmempty" and P = ?P
        and m = "''PUT''" and b = "''x''"]
      r r' s
    by (simp add: empty_request_init_def)
qed

text \<open>
  C4 as stated fails: with \<^verbatim>\<open>requestOptions: (payload) => ({ method: 'GET' })\<close>
  (the README's example of the function form) and a payload present, the built request
  has method GET.
\<close>

theorem buildFetchOptions_method_counterexample:
  "truthy (JObj fmempty) \<and>
   ri_method (buildFetchOptions (example_platform (served 200 ''OK'' ''{}''))
      (TanStackI18nextBackend passthrough_client
         (empty_options\<lparr>requestOptions :=
            Some (Function (\<lambda>payload. empty_request_init\<lparr>ri_method := Some ''GET''\<rparr>))\<rparr>))
      (JObj fmempty)) = Some ''GET''"
  by (simp add: buildFetchOptions_def Let_def TanStackI18nextBackend_def spread_options_def
      empty_options_def spread_prop_def resolve_requestOptions_def empty_request_init_def
      spread_request_init_def)

text \<open>
  C9, as amended. For every request with a payload present whose \<^verbatim>\<open>requestOptions\<close>
  supply no headers, the built request carries \<^verbatim>\<open>Content-Type: application/json\<close>,
  also when the configured custom headers (a mapping or a zero-argument function)
  supply a \<^verbatim>\<open>Content-Type\<close> of their own: the fixed value replaces theirs. Every
  other custom header, \<^verbatim>\<open>User-Agent\<close> apart, is carried with the value the custom
  headers give it.
\<close>

theorem buildFetchOptions_content_type:
  "truthy payload \<and> ri_headers (resolve_requestOptions (this_options this) payload) = None \<longrightarrow>
     header_of (buildFetchOptions P this payload) ''Content-Type'' = Some ''application/json'' \<and>
     (name \<noteq> ''Content-Type'' \<and> name \<noteq> ''User-Agent'' \<longrightarrow>
        header_of (buildFetchOptions P this payload) name =
          (case resolve_customHeaders (this_options this) of None \<Rightarrow> None | Some h \<Rightarrow> h name))"
  by (simp add: buildFetchOptions_def Let_def spread_request_init_def spread_prop_def
      header_of_def split: option.splits)

text \<open>
  The theorem at custom headers given by a function, with a \<^verbatim>\<open>Content-Type\<close> and an
  \<^verbatim>\<open>authorization\<close> header.
\<close>

theorem buildFetchOptions_content_type_witness:
  "truthy (JObj fmempty) \<and>
   header_of (buildFetchOptions (example_platform (served 200 ''OK'' ''{}''))
      (TanStackI18nextBackend passthrough_client
         (empty_options\<lparr>customHeaders :=
            Some (Function (\<lambda>_. [''Content-Type'' \<mapsto> ''text/plain'', ''authorization'' \<mapsto> ''foo'']))\<rparr>))
      (JObj fmempty)) ''Content-Type'' = Some ''application/json'' \<and>
   header_of (buildFetchOptions (example_platform (served 200 ''OK'' ''{}''))
      (TanStackI18nextBackend passthrough_client
         (empty_options\<lparr>customHeaders :=
            Some (Function (\<lambda>_. [''Content-Type'' \<mapsto> ''text/plain'', ''authorization'' \<mapsto> ''foo'']))\<rparr>))
      (JObj fmempty)) ''authorization'' = Some ''foo''"
proof -
  let ?P = "example_platform (served 200 ''OK'' ''{}'')"
  let ?B = "TanStackI18nextBackend passthrough_client
         (empty_options\<lparr>customHeaders :=
            Some (Function (\<lambda>_. [''Content-Type'' \<mapsto> ''text/plain'', ''authorization'' \<mapsto> ''foo'']))\<rparr>)"
  have r: "resolve_requestOptions (this_options ?B) p = empty_request_init" for p
    by (simp add: TanStackI18nextBackend_def spread_options_def empty_options_def
        spread_prop_def resolve_requestOptions_def)
  have c: "resolve_customHeaders (this_options ?B) =
      Some [''Content-Type'' \<mapsto> ''text/plain'', ''authorization'' \<mapsto> ''foo'']"
    by (simp add: TanStackI18nextBackend_def spread_options_def empty_options_def
        spread_prop_def resolve_customHeaders_def)
  show ?thesis
    using buildFetchOptions_content_type [where payload = "JObj fmempty" and this = ?B and P = ?P
        and name = "''authorization''"] r c
    by (simp add: empty_request_init_def)
qed

text \<open>
  C9 as stated fails: custom headers with \<^verbatim>\<open>Content-Type: text/plain\<close> and a payload
  present give a request whose \<^verbatim>\<open>Content-Type\<close> is \<^verbatim>\<open>application/json\<close>.
\<close>

theorem buildFetchOptions_content_type_counterexample:
  "truthy (JObj fmempty) \<and>
   resolve_customHeaders (empty_options\<lparr>customHeaders :=
            Some (Value [''Content-Type'' \<mapsto> ''text/plain''])\<rparr>) =
     Some [''Content-Type'' \<mapsto> ''text/plain''] \<and>
   header_of (buildFetchOptions (example_platform (served 200 ''OK'' ''{}''))
      (TanStackI18nextBackend passthrough_client
         (empty_options\<lparr>customHeaders :=
            Some (Value [''Content-Type'' \<mapsto> ''text/plain''])\<rparr>))
      (JObj fmempty)) ''Content-Type'' = Some ''application/json''"
  by (simp add: buildFetchOptions_def Let_def TanStackI18nextBackend_def spread_options_def
      empty_options_def spread_prop_def resolve_requestOptions_def empty_request_init_def
      spread_request_init_def resolve_customHeaders_def header_of_def example_platform_def)

section \<open>Cache keys\<close>

text \<open>
  C5. The key factories are deterministic and injective. Two load keys are equal exactly
  when their URLs are; two save keys are equal exactly when their URLs and their payloads
  are, so the same URL with different payloads gives distinct keys; a load key is never
  a save key. This holds for both key factories of the repository and for the key that
  \<^verbatim>\<open>request\<close> builds from a URL and a payload with the factory declared with the
  types.
\<close>

theorem cache_keys_injective:
  "(queryKeys_load url = queryKeys_load url' \<longleftrightarrow> url = url') \<and>
   (queryKeys_create url payload = queryKeys_create url' payload' \<longleftrightarrow>
      url = url' \<and> payload = payload') \<and>
   queryKeys_load url \<noteq> queryKeys_create url' payload' \<and>
   (types_queryKeys_load url payload = types_queryKeys_load url' payload' \<longleftrightarrow>
      url = url' \<and> payload = payload') \<and>
   (types_queryKeys_create url payload = types_queryKeys_create url' payload' \<longleftrightarrow>
      url = url' \<and> payload = payload') \<and>
   types_queryKeys_load url payload \<noteq> types_queryKeys_create url' payload' \<and>
   (request_queryKey url payload = request_queryKey url' payload' \<longleftrightarrow>
      url = url' \<and> payload = payload')"
proof (intro conjI)
  show "request_queryKey url payload = request_queryKey url' payload' \<longleftrightarrow>
      url = url' \<and> payload = payload'"
    by (auto simp: request_queryKey_def types_queryKeys_load_def types_queryKeys_create_def
        types_queryKeys_loads_def types_queryKeys_creates_def types_queryKeys_all_def)
qed (auto simp: queryKeys_load_def queryKeys_create_def types_queryKeys_load_def
    types_queryKeys_create_def types_queryKeys_loads_def types_queryKeys_creates_def
    types_queryKeys_all_def)

text \<open>The theorem at two URLs and at two payloads.\<close>

theorem cache_keys_injective_witness:
  "queryKeys_load ''/locales/en/test'' = queryKeys_load ''/locales/en/test'' \<and>
   queryKeys_load ''/locales/en/test'' \<noteq> queryKeys_load ''/locales/de/test'' \<and>
   queryKeys_create ''/locales/add/en/test'' (JNum 1) \<noteq>
     queryKeys_create ''/locales/add/en/test'' (JNum 2) \<and>
   queryKeys_load ''/locales/en/test'' \<noteq> queryKeys_create ''/locales/en/test'' JUndefined"
  using cache_keys_injective [of "''/locales/en/test''" "''/locales/de/test''"]
    cache_keys_injective [of "''/locales/add/en/test''" "''/locales/add/en/test''" "JNum 1" "JNum 2"]
    cache_keys_injective [of "''/locales/en/test''" "''/locales/en/test''" _ JUndefined]
  by simp

text \<open>
  C10. Every key the factories produce (\<^verbatim>\<open>all\<close>, \<^verbatim>\<open>load(url)\<close>,
  \<^verbatim>\<open>create(url, payload)\<close>) has the string \<^verbatim>\<open>i18next\<close> as its first element,
  and a filter by the key \<^verbatim>\<open>['i18next']\<close> selects every load and save key, and
  exactly the keys that start with \<^verbatim>\<open>i18next\<close>. \<open>invalidateQueries\<close> without a
  pattern does not hand the cache client this filter: it evaluates the unbound name
  \<^verbatim>\<open>queryKeys\<close> and throws the ReferenceError.
\<close>

theorem cache_keys_start_with_i18next:
  "hd queryKeys_all = JStr ''i18next'' \<and>
   hd (queryKeys_load url) = JStr ''i18next'' \<and>
   hd (queryKeys_create url payload) = JStr ''i18next'' \<and>
   hd types_queryKeys_all = JStr ''i18next'' \<and>
   hd (types_queryKeys_load url payload) = JStr ''i18next'' \<and>
   hd (types_queryKeys_create url payload) = JStr ''i18next'' \<and>
   filter_selects (ByQueryKey queryKeys_all) (queryKeys_load url) \<and>
   filter_selects (ByQueryKey queryKeys_all) (queryKeys_create url payload) \<and>
   filter_selects (ByQueryKey types_queryKeys_all) (types_queryKeys_load url payload) \<and>
   filter_selects (ByQueryKey types_queryKeys_all) (types_queryKeys_create url payload) \<and>
   filter_selects (ByQueryKey queryKeys_all) key = (key \<noteq> [] \<and> hd key = JStr ''i18next'') \<and>
   invalidateQueries None = Inl (reference_error ''queryKeys'')"
proof -
  have sel: "filter_selects (ByQueryKey [JStr ''i18next'']) k =
      (k \<noteq> [] \<and> hd k = JStr ''i18next'')" for k
    by (simp add: filter_selects_def prefix_singleton)
  have inv: "invalidateQueries None = Inl (reference_error ''queryKeys'')"
    by (simp add: invalidateQueries_def str_truthy_def imported_queryKeys_def)
  show ?thesis
    by (simp add: inv sel queryKeys_all_def queryKeys_load_def queryKeys_create_def
        types_queryKeys_all_def types_queryKeys_load_def types_queryKeys_create_def
        types_queryKeys_loads_def types_queryKeys_creates_def)
qed

text \<open>The theorem at one URL and one payload, and at a key of another subsystem.\<close>

theorem cache_keys_start_with_i18next_witness:
  "hd (queryKeys_load ''/locales/en/test'') = JStr ''i18next'' \<and>
   hd (queryKeys_create ''/locales/en/test'' (JNum 1)) = JStr ''i18next'' \<and>
   filter_selects (ByQueryKey queryKeys_all) (queryKeys_load ''/locales/en/test'') \<and>
   filter_selects (ByQueryKey queryKeys_all) (queryKeys_create ''/locales/en/test'' (JNum 1)) \<and>
   \<not> filter_selects (ByQueryKey queryKeys_all) [JStr ''todos'', JNum 1] \<and>
   invalidateQueries None =
     Inl \<lparr>e_name = Some ''ReferenceError'', e_message = Some ''queryKeys is not defined'',
          e_status = None, e_response = None, e_url = None, e_retry = None\<rparr>"
proof -
  note a = cache_keys_start_with_i18next [where url = "''/locales/en/test''"
      and payload = "JNum 1" and key = "[JStr ''todos'', JNum 1]"]
  from a have "filter_selects (ByQueryKey queryKeys_all) [JStr ''todos'', JNum 1] =
      ([JStr ''todos'', JNum 1] \<noteq> [] \<and> hd [JStr ''todos'', JNum 1] = JStr ''i18next'')"
    by blast
  then have n: "\<not> filter_selects (ByQueryKey queryKeys_all) [JStr ''todos'', JNum 1]"
    by simp
  from a have "invalidateQueries None = Inl (reference_error ''queryKeys'')"
    by blast
  then have r: "invalidateQueries None =
     Inl \<lparr>e_name = Some ''ReferenceError'', e_message = Some ''queryKeys is not defined'',
          e_status = None, e_response = None, e_url = None, e_retry = None\<rparr>"
    by (simp add: reference_error_def new_error_def)
  from a n r show ?thesis by blast
qed

section \<open>Cache integration: path, callback and defaults\<close>

text \<open>
  C6. \<open>isTanstackQueryEnabled\<close> holds if and only if both a cache-client handle and an
  enabled flag that is true are present, and then \<open>isQueryClientAvailable\<close> holds as well.
  The loader takes the cache-backed path exactly when \<open>isTanstackQueryEnabled\<close> holds;
  when the handle or the flag is absent it takes the direct-transport path and reports
  the direct outcome. For a configuration without a handle, enabling cache integration
  reports the same outcome as disabling it.
\<close>

theorem cache_path_iff_client_and_enabled:
  "(isTanstackQueryEnabled options \<longleftrightarrow>
      queryClient options \<noteq> None \<and> tq_prop enabled options = Some True) \<and>
   (loader_path options = CacheBacked \<longleftrightarrow> isTanstackQueryEnabled options) \<and>
   (isTanstackQueryEnabled options \<longrightarrow> isQueryClientAvailable options) \<and>
   (queryClient options = None \<or> tq_prop enabled options \<noteq> Some True \<longrightarrow>
      loader_path options = DirectTransport \<and> loader_outcome options direct cached = direct) \<and>
   (queryClient options = None \<longrightarrow>
      loader_outcome (options\<lparr>tanstackQuery := Some (t\<lparr>enabled := Some True\<rparr>)\<rparr>) direct cached =
      loader_outcome (options\<lparr>tanstackQuery := Some (t\<lparr>enabled := Some False\<rparr>)\<rparr>) direct cached)"
  by (auto simp: isTanstackQueryEnabled_def isQueryClientAvailable_def loader_path_def
      loader_outcome_def tq_prop_def split: option.splits)

text \<open>
  The theorem at a configuration with the flag and no handle, and at one with both.
\<close>

theorem cache_path_iff_client_and_enabled_witness:
  "queryClient (empty_options\<lparr>tanstackQuery := Some (default_tanstackQuery\<lparr>enabled := Some True\<rparr>)\<rparr>) = None \<and>
   \<not> isTanstackQueryEnabled
       (empty_options\<lparr>tanstackQuery := Some (default_tanstackQuery\<lparr>enabled := Some True\<rparr>)\<rparr>) \<and>
   loader_outcome (empty_options\<lparr>tanstackQuery := Some (default_tanstackQuery\<lparr>enabled := Some True\<rparr>)\<rparr>)
     (1::nat) 2 = 1 \<and>
   loader_outcome (empty_options\<lparr>tanstackQuery := Some (default_tanstackQuery\<lparr>enabled := Some True\<rparr>)\<rparr>)
     (1::nat) 2 =
   loader_outcome (empty_options\<lparr>tanstackQuery := Some (default_tanstackQuery\<lparr>enabled := Some False\<rparr>)\<rparr>)
     (1::nat) 2 \<and>
   isTanstackQueryEnabled
     (empty_options\<lparr>queryClient := Some passthrough_client,
        tanstackQuery := Some (default_tanstackQuery\<lparr>enabled := Some True\<rparr>)\<rparr>) \<and>
   isQueryClientAvailable
     (empty_options\<lparr>queryClient := Some passthrough_client,
        tanstackQuery := Some (default_tanstackQuery\<lparr>enabled := Some True\<rparr>)\<rparr>) \<and>
   loader_path
     (empty_options\<lparr>queryClient := Some passthrough_client,
        tanstackQuery := Some (default_tanstackQuery\<lparr>enabled := Some True\<rparr>)\<rparr>) = CacheBacked"
proof -
  let ?o1 = "empty_options\<lparr>tanstackQuery := Some (default_tanstackQuery\<lparr>enabled := Some True\<rparr>)\<rparr>"
  let ?o2 = "empty_options\<lparr>queryClient := Some passthrough_client,
        tanstackQuery := Some (default_tanstackQuery\<lparr>enabled := Some True\<rparr>)\<rparr>"
  have q1: "queryClient ?o1 = None" by (simp add: empty_options_def)
  have q2: "queryClient ?o2 \<noteq> None" "tq_prop enabled ?o2 = Some True"
    by (simp_all add: empty_options_def tq_prop_def)
  show ?thesis
    using cache_path_iff_client_and_enabled [where options = ?o1 and direct = "1::nat" and cached = 2
        and t = default_tanstackQuery]
      cache_path_iff_client_and_enabled [where options = ?o2 and direct = "1::nat" and cached = 2
        and t = default_tanstackQuery] q1 q2
    by simp
qed

text \<open>
  C7. Every call of \<open>requestWithCallback\<close> fails before anything is fetched:
  \<^verbatim>\<open>request\<close> rejects with the ReferenceError of the unbound name \<^verbatim>\<open>queryKeys\<close>,
  which carries neither a retry flag nor a status, and the callback is called with
  \<^verbatim>\<open>('queryKeys is not defined', null)\<close>. It is never called with
  \<^verbatim>\<open>(null, { status, data })\<close>, nor with the sentinel \<^verbatim>\<open>{ status: 0 }\<close>.
\<close>

theorem requestWithCallback_reference_error:
  "request P this options url payload = Inl (reference_error ''queryKeys'') \<and>
   requestWithCallback P this options url payload =
     \<lparr>cb_error = Some ''queryKeys is not defined'', cb_response = None\<rparr>"
  by (simp add: requestWithCallback_def request_def imported_queryKeys_def settle_callback_def
      processForCallback_def reference_error_def new_error_def num_truthy_def)

text \<open>
  The theorem at a server that answers 200 with \<^verbatim>\<open>{}\<close>: the query function alone
  resolves with the response, the call through \<open>requestWithCallback\<close> reports the
  ReferenceError.
\<close>

theorem requestWithCallback_reference_error_witness:
  "createQueryFn (example_platform (served 200 ''OK'' ''{}''))
      (TanStackI18nextBackend passthrough_client empty_options) ''/locales/en/test'' JUndefined =
     Inr \<lparr>status = 200, data = JObj fmempty\<rparr> \<and>
   requestWithCallback (example_platform (served 200 ''OK'' ''{}''))
      (TanStackI18nextBackend passthrough_client empty_options) empty_options
      ''/locales/en/test'' JUndefined =
     \<lparr>cb_error = Some ''queryKeys is not defined'', cb_response = None\<rparr>"
proof -
  have q: "createQueryFn (example_platform (served 200 ''OK'' ''{}''))
      (TanStackI18nextBackend passthrough_client empty_options) ''/locales/en/test'' JUndefined =
     Inr \<lparr>status = 200, data = JObj fmempty\<rparr>"
    by (simp add: createQueryFn_def Let_def example_platform_def served_def parse_body_def
        TanStackI18nextBackend_def spread_options_def empty_options_def spread_prop_def)
  show ?thesis
    using q requestWithCallback_reference_error
      [where P = "example_platform (served 200 ''OK'' ''{}'')"
        and this = "TanStackI18nextBackend passthrough_client empty_options"
        and options = empty_options and url = "''/locales/en/test''" and payload = JUndefined]
    by simp
qed

text \<open>
  C8. When the plugin is constructed with no cache options, the resulting
  \<^verbatim>\<open>tanstackQuery\<close> configuration has the documented defaults: \<open>enabled\<close> false,
  \<open>staleTime\<close> 5 minutes, \<open>cacheTime\<close> 10 minutes, \<open>retry\<close> 3,
  \<open>refetchOnWindowFocus\<close> false and \<open>refetchOnReconnect\<close> true.
\<close>

theorem Backend_tanstackQuery_defaults:
  "tanstackQuery options = None \<longrightarrow>
     enabled (Backend_tanstackQuery options) = Some False \<and>
     staleTime (Backend_tanstackQuery options) = Some (5 * 60 * 1000) \<and>
     cacheTime (Backend_tanstackQuery options) = Some (10 * 60 * 1000) \<and>
     retry (Backend_tanstackQuery options) = Some (RetryCount 3) \<and>
     refetchOnWindowFocus (Backend_tanstackQuery options) = Some False \<and>
     refetchOnReconnect (Backend_tanstackQuery options) = Some True"
  by (simp add: Backend_tanstackQuery_def documented_tanstackQuery_def tq_prop_def
      spread_prop_def)

text \<open>The theorem at the empty options object.\<close>

theorem Backend_tanstackQuery_defaults_witness:
  "tanstackQuery empty_options = None \<and>
   enabled (Backend_tanstackQuery empty_options) = Some False \<and>
   staleTime (Backend_tanstackQuery empty_options) = Some 300000 \<and>
   cacheTime (Backend_tanstackQuery empty_options) = Some 600000 \<and>
   retry (Backend_tanstackQuery empty_options) = Some (RetryCount 3) \<and>
   refetchOnWindowFocus (Backend_tanstackQuery empty_options) = Some False \<and>
   refetchOnReconnect (Backend_tanstackQuery empty_options) = Some True"
proof -
  have h: "tanstackQuery empty_options = None" by (simp add: empty_options_def)
  show ?thesis
    using h Backend_tanstackQuery_defaults [where options = empty_options] by simp
qed

end
